theory Spec2Isabelle
  imports Main "HOL-Library.Monad_Syntax"
begin

section \<open>Python values and exceptions\<close>

text \<open>
  \<^verbatim>\<open>Symbol.name\<close> holds a \<^verbatim>\<open>str\<close> for every token except a number, where
  \<^verbatim>\<open>get_number\<close> stores an \<^verbatim>\<open>int\<close>. Lists of names (\<^verbatim>\<open>device_list\<close>,
  \<^verbatim>\<open>ports_list\<close>, the name table) hold whatever \<^verbatim>\<open>Symbol.name\<close> held.
\<close>

datatype pyval = PStr string | PInt int

text \<open>The uncaught exceptions that the parser's own statements can raise.\<close>

datatype exn = IndexError | KeyError | ValueError | TypeError

text \<open>
  Characters are modelled for ASCII input: \<^verbatim>\<open>str.isalpha\<close>, \<^verbatim>\<open>str.isdigit\<close>,
  \<^verbatim>\<open>str.isspace\<close> and \<^verbatim>\<open>str.lower\<close> are given on the code points 0..127; a
  code point above 127 is in none of the three classes.
\<close>

definition is_alpha :: "char \<Rightarrow> bool" where
  "is_alpha c = (let n = (of_char c :: nat) in (65 \<le> n \<and> n \<le> 90) \<or> (97 \<le> n \<and> n \<le> 122))"

definition is_digit :: "char \<Rightarrow> bool" where
  "is_digit c = (let n = (of_char c :: nat) in 48 \<le> n \<and> n \<le> 57)"

definition is_space :: "char \<Rightarrow> bool" where
  "is_space c = (let n = (of_char c :: nat) in n = 32 \<or> (9 \<le> n \<and> n \<le> 13) \<or> (28 \<le> n \<and> n \<le> 31))"

definition to_lower :: "char \<Rightarrow> char" where
  "to_lower c = (let n = (of_char c :: nat) in if 65 \<le> n \<and> n \<le> 90 then char_of (n + 32) else c)"

text \<open>The \<^verbatim>\<open>str\<close> methods: false on the empty string, as in Python.\<close>

definition isalpha :: "string \<Rightarrow> bool" where
  "isalpha s = (s \<noteq> [] \<and> list_all is_alpha s)"

definition isdigit :: "string \<Rightarrow> bool" where
  "isdigit s = (s \<noteq> [] \<and> list_all is_digit s)"

definition isspace :: "string \<Rightarrow> bool" where
  "isspace s = (s \<noteq> [] \<and> list_all is_space s)"

definition isalnum :: "string \<Rightarrow> bool" where
  "isalnum s = (s \<noteq> [] \<and> list_all (\<lambda>c. is_alpha c \<or> is_digit c) s)"

definition lower :: "string \<Rightarrow> string" where
  "lower s = map to_lower s"

definition newline :: string where
  "newline = [CHR 0x0A]"

text \<open>\<^verbatim>\<open>int(s)\<close> on a string of ASCII decimal digits, most significant first.\<close>

definition digit_value :: "char \<Rightarrow> int" where
  "digit_value c = int (of_char c) - 48"

definition int_of_digits :: "string \<Rightarrow> int" where
  "int_of_digits s = foldl (\<lambda>acc c. 10 * acc + digit_value c) 0 s"

text \<open>
  \<^verbatim>\<open>int(x)\<close>: the identity on an \<^verbatim>\<open>int\<close>; on a \<^verbatim>\<open>str\<close> ValueError unless the text is
  a numeral. The strings that reach \<^verbatim>\<open>int\<close> are pieces of one token, so they hold
  letters and digits only, and among those exactly the non-empty digit strings are
  numerals. CPython from version 3.11 on also raises ValueError for a numeral of more
  than 4300 digits (\<^verbatim>\<open>sys.int_max_str_digits\<close>), whatever its value.
\<close>

definition int_max_str_digits :: nat where
  "int_max_str_digits = 4300"

fun py_int :: "pyval \<Rightarrow> exn + int" where
  "py_int (PInt n) = Inr n"
| "py_int (PStr s) =
     (if isdigit s \<and> length s \<le> int_max_str_digits then Inr (int_of_digits s)
      else Inl ValueError)"

text \<open>
  A call that may not return (\<open>None\<close>), may raise (\<open>Inl\<close>) or returns a value
  (\<open>Inr\<close>), and the sequencing of two such calls: the second runs on the value of the
  first, and nothing runs after a raise.
\<close>

fun bind_res :: "(exn + 'a) option \<Rightarrow> ('a \<Rightarrow> (exn + 'b) option) \<Rightarrow> (exn + 'b) option" where
  "bind_res None k = None"
| "bind_res (Some (Inl e)) k = Some (Inl e)"
| "bind_res (Some (Inr a)) k = k a"

lemma bind_res_mono [partial_function_mono]:
  assumes mf: "mono_option B" and mg: "\<And>y. mono_option (\<lambda>f. C y f)"
  shows "mono_option (\<lambda>f. bind_res (B f) (\<lambda>y. C y f))"
proof (rule monotoneI)
  fix f g :: "'a \<Rightarrow> 'b option"
  assume fg: "fun_ord option_ord f g"
  have B: "option_ord (B f) (B g)"
    using mf fg by (rule monotoneD [of _ _ _ f g])
  have C: "option_ord (C y f) (C y g)" for y
    using mg fg by (rule monotoneD [of _ _ _ f g])
  show "option_ord (bind_res (B f) (\<lambda>y. C y f)) (bind_res (B g) (\<lambda>y. C y g))"
  proof (cases "B f")
    case None
    then show ?thesis by (simp add: flat_ord_def)
  next
    case (Some r)
    with B have Bg: "B g = Some r" by (simp add: flat_ord_def)
    show ?thesis
    proof (cases r)
      case (Inl e)
      with Some Bg show ?thesis by (simp add: flat_ord_def)
    next
      case (Inr a)
      with Some Bg C [of a] show ?thesis by simp
    qed
  qed
qed

lemma bind_res_split:
  "P (bind_res m k) \<longleftrightarrow>
     (m = None \<longrightarrow> P None) \<and> (\<forall>e. m = Some (Inl e) \<longrightarrow> P (Some (Inl e)))
     \<and> (\<forall>a. m = Some (Inr a) \<longrightarrow> P (k a))"
proof (cases m)
  case None
  then show ?thesis by simp
next
  case (Some r)
  then show ?thesis by (cases r) simp_all
qed

lemma bind_res_split_asm:
  "P (bind_res m k) \<longleftrightarrow>
     \<not> ((m = None \<and> \<not> P None) \<or> (\<exists>e. m = Some (Inl e) \<and> \<not> P (Some (Inl e)))
        \<or> (\<exists>a. m = Some (Inr a) \<and> \<not> P (k a)))"
proof (cases m)
  case None
  then show ?thesis by simp
next
  case (Some r)
  then show ?thesis by (cases r) simp_all
qed

lemmas bind_res_splits = bind_res_split bind_res_split_asm

text \<open>
  The subscript \<^verbatim>\<open>xs[i]\<close> of a Python list: positions 0 up to \<^verbatim>\<open>len(xs) - 1\<close>, the
  positions \<^verbatim>\<open>-len(xs)\<close> up to -1 for the same elements counted from the back, and
  IndexError for every other \<^verbatim>\<open>i\<close>.
\<close>

definition py_index :: "'a list \<Rightarrow> int \<Rightarrow> exn + 'a" where
  "py_index xs i =
     (if 0 \<le> i \<and> i < int (length xs) then Inr (xs ! nat i)
      else if i < 0 \<and> - int (length xs) \<le> i then Inr (xs ! nat (int (length xs) + i))
      else Inl IndexError)"

section \<open>The name table\<close>

text \<open>
  Modelled from the spec: the module \<^verbatim>\<open>names\<close> (class \<^verbatim>\<open>Names\<close>) is not among the
  sources. The spec gives \<^verbatim>\<open>lookup(names) -> identities\<close>, which interns unseen names
  and preserves input order, and \<^verbatim>\<open>query(name) -> identity | none\<close>, which does not
  intern. An identity is a stable numeric handle: here the position at which the name
  was interned. The scanner and the parser are handed the same \<^verbatim>\<open>Names\<close> object; the
  model keeps the table in the scanner record and the parser reaches it there.
\<close>

fun index_of :: "'a list \<Rightarrow> 'a \<Rightarrow> nat option" where
  "index_of [] x = None"
| "index_of (y # ys) x = (if y = x then Some 0 else map_option Suc (index_of ys x))"

definition query :: "pyval list \<Rightarrow> pyval \<Rightarrow> nat option" where
  "query table nm = index_of table nm"

definition lookup1 :: "pyval list \<Rightarrow> pyval \<Rightarrow> nat \<times> pyval list" where
  "lookup1 table nm =
     (case index_of table nm of
        Some i \<Rightarrow> (i, table)
      | None \<Rightarrow> (length table, table @ [nm]))"

fun lookup :: "pyval list \<Rightarrow> pyval list \<Rightarrow> nat list \<times> pyval list" where
  "lookup table [] = ([], table)"
| "lookup table (nm # nms) =
     (let (i, table1) = lookup1 table nm;
          (is, table2) = lookup table1 nms
      in (i # is, table2))"

section \<open>The scanner\<close>

datatype symbol_type =
    HEADING | LOGIC | NUMBER | NAME | INPUT | OUTPUT | EQUAL | DOT | COMMA | SEMICOLON
  | OPEN_BRACKET | CLOSE_BRACKET | OPEN_SQUARE_BRACKET | CLOSE_SQUARE_BRACKET | EOF

text \<open>A fresh \<^verbatim>\<open>Symbol()\<close> has type \<^verbatim>\<open>None\<close>, id \<^verbatim>\<open>None\<close> and the empty name.\<close>

record symbol =
  sym_type :: "symbol_type option"
  sym_id :: "nat option"
  sym_name :: pyval

definition Symbol :: symbol where
  "Symbol = \<lparr>sym_type = None, sym_id = None, sym_name = PStr []\<rparr>"

datatype scanner_error_code = INVALID_CHARACTER | SCAN_INVALID_NAME | SCAN_INVALID_NUMBER

text \<open>
  A \<^verbatim>\<open>ScannerError\<close>. The column is an \<^verbatim>\<open>int\<close>: for a reserved name it is
  \<^verbatim>\<open>current_position - len(name)\<close>, which is negative when the name ends its line.
  The rendered source line (\<^verbatim>\<open>get_current_line\<close>, a re-read of the file that puts the
  stream position back) is left out of the record.
\<close>

record scanner_error =
  se_line_number :: nat
  se_char_number :: int
  se_error_code :: scanner_error_code
  se_message :: string

text \<open>
  The scanner object. \<open>file_in\<close> is the unread rest of the character stream,
  \<^verbatim>\<open>current_character\<close> a string of length one, or empty once \<^verbatim>\<open>read(1)\<close> has hit the
  end of the stream.
\<close>

record scanner =
  file_in :: string
  names :: "pyval list"
  scan_errors :: "scanner_error list"
  current_character :: string
  current_position :: nat
  current_line :: nat
  error_count :: nat

definition heading_list :: "string list" where
  "heading_list = [''devices'', ''conns'', ''monit'']"

definition logic_list :: "string list" where
  "logic_list = [''DTYPE'', ''NAND'', ''NOR'', ''XOR'', ''AND'', ''OR'', ''CLOCK'', ''SWITCH'']"

definition keywords_list :: "string list" where
  "keywords_list = map lower (heading_list @ logic_list)"

definition Scanner :: "string \<Rightarrow> pyval list \<Rightarrow> scanner" where
  "Scanner content table =
     \<lparr>file_in = content, names = table, scan_errors = [], current_character = '' '',
      current_position = 0, current_line = 0, error_count = 0\<rparr>"

definition advance :: "scanner \<Rightarrow> scanner" where
  "advance s =
     (let c = take 1 (file_in s);
          s1 = s\<lparr>file_in := drop 1 (file_in s), current_character := c\<rparr>
      in if c = newline
         then s1\<lparr>current_line := current_line s + 1, current_position := 0\<rparr>
         else s1\<lparr>current_position := current_position s + 1\<rparr>)"

lemma advance_file [simp]: "file_in (advance s) = drop 1 (file_in s)"
  by (simp add: advance_def Let_def)

lemma advance_current [simp]: "current_character (advance s) = take 1 (file_in s)"
  by (simp add: advance_def Let_def)

lemma isspace_Nil [simp]: "\<not> isspace []"
  by (simp add: isspace_def)

lemma isalnum_Nil [simp]: "\<not> isalnum []"
  by (simp add: isalnum_def)

lemma isdigit_Nil [simp]: "\<not> isdigit []"
  by (simp add: isdigit_def)

lemma isspace_take1: "isspace (take (Suc 0) xs) \<Longrightarrow> length xs - Suc 0 < length xs"
  by (cases xs) simp_all

lemma isalnum_take1: "isalnum (take (Suc 0) xs) \<Longrightarrow> length xs - Suc 0 < length xs"
  by (cases xs) simp_all

lemma isdigit_take1: "isdigit (take (Suc 0) xs) \<Longrightarrow> length xs - Suc 0 < length xs"
  by (cases xs) simp_all

text \<open>
  The three scanning loops stop by themselves: once the stream is exhausted
  \<^verbatim>\<open>read(1)\<close> returns the empty string, which is in no character class.
\<close>

function skip_spaces :: "scanner \<Rightarrow> scanner" where
  "skip_spaces s = (if isspace (current_character s) then skip_spaces (advance s) else s)"
  by pat_completeness auto
termination
  by (relation "measure (\<lambda>s. length (file_in s) + (if isspace (current_character s) then 1 else 0))")
     (auto simp: isspace_take1)

function get_name_loop :: "string \<Rightarrow> scanner \<Rightarrow> string \<times> scanner" where
  "get_name_loop nm s =
     (if isalnum (current_character s)
      then get_name_loop (nm @ current_character s) (advance s)
      else (nm, s))"
  by pat_completeness auto
termination
  by (relation "measure (\<lambda>(nm, s). length (file_in s) + (if isalnum (current_character s) then 1 else 0))")
     (auto simp: isalnum_take1)

definition get_name :: "scanner \<Rightarrow> string \<times> scanner" where
  "get_name s = get_name_loop [] (skip_spaces s)"

function get_number_loop :: "string \<Rightarrow> scanner \<Rightarrow> string \<times> scanner" where
  "get_number_loop number s =
     (if isdigit (current_character s)
      then get_number_loop (number @ current_character s) (advance s)
      else (number, s))"
  by pat_completeness auto
termination
  by (relation "measure (\<lambda>(nm, s). length (file_in s) + (if isdigit (current_character s) then 1 else 0))")
     (auto simp: isdigit_take1)

text \<open>
  The equations of the three loops are unfolded by hand in proofs, never by the
  simplifier on its own.
\<close>

declare skip_spaces.simps [simp del] get_name_loop.simps [simp del]
  get_number_loop.simps [simp del]

text \<open>
  \<^verbatim>\<open>int(number)\<close> on the digits that \<^verbatim>\<open>get_number\<close> has collected. CPython from
  version 3.11 on refuses a string of more than 4300 digits with ValueError (the
  default of \<^verbatim>\<open>sys.int_max_str_digits\<close>), leading zeros counted.
\<close>

definition get_number :: "scanner \<Rightarrow> exn + int \<times> scanner" where
  "get_number s =
     (let (number, s1) = get_number_loop [] s in
      case py_int (PStr number) of
        Inl e \<Rightarrow> Inl e
      | Inr n \<Rightarrow> Inr (n, s1))"

text \<open>
  The comment loop \<^verbatim>\<open>while self.current_character != "\n": self.advance()\<close> has no
  test for the end of the stream, so it is a partial function: \<open>None\<close> is the loop
  that never returns.
\<close>

partial_function (option) skip_comment :: "scanner \<Rightarrow> scanner option" where
  "skip_comment s =
     (if current_character s \<noteq> newline then skip_comment (advance s) else Some s)"

declare skip_comment.simps [code]

definition add_scanner_error :: "scanner_error \<Rightarrow> scanner \<Rightarrow> scanner" where
  "add_scanner_error e s = s\<lparr>scan_errors := scan_errors s @ [e]\<rparr>"

text \<open>
  The part of \<^verbatim>\<open>get_symbol\<close> after the comment has been skipped: the chain of tests
  on the current character, one token out. Only the number branch can raise.
\<close>

definition classify :: "scanner \<Rightarrow> exn + symbol \<times> scanner" where
  "classify s =
     (let c = current_character s in
      if isalpha c then
        (let (name_string, s1) = get_name s in
         if name_string \<in> set heading_list then
           Inr (Symbol\<lparr>sym_name := PStr name_string, sym_type := Some HEADING\<rparr>, s1)
         else if name_string \<in> set logic_list then
           (let (i, table) = lookup1 (names s1) (PStr name_string) in
            Inr (Symbol\<lparr>sym_name := PStr name_string, sym_type := Some LOGIC, sym_id := Some i\<rparr>,
                 s1\<lparr>names := table\<rparr>))
         else
           (let (i, table) = lookup1 (names s1) (PStr name_string);
                s2 = s1\<lparr>names := table\<rparr>;
                tok = Symbol\<lparr>sym_name := PStr name_string, sym_type := Some NAME, sym_id := Some i\<rparr>
            in if lower name_string \<in> set keywords_list then
                 Inr (tok, add_scanner_error
                         \<lparr>se_line_number = current_line s2,
                          se_char_number = int (current_position s2) - int (length name_string),
                          se_error_code = SCAN_INVALID_NAME,
                          se_message = ''Invalid name: '' @ name_string\<rparr>
                         (s2\<lparr>error_count := error_count s2 + 1\<rparr>))
               else Inr (tok, s2)))
      else if isdigit c then
        (case get_number s of
           Inl e \<Rightarrow> Inl e
         | Inr (n, s1) \<Rightarrow>
             Inr (Symbol\<lparr>sym_id := None, sym_name := PInt n, sym_type := Some NUMBER\<rparr>, s1))
      else if c = ''='' then
        Inr (Symbol\<lparr>sym_type := Some EQUAL, sym_name := PStr ''=''\<rparr>, advance s)
      else if c = ''.'' then
        Inr (Symbol\<lparr>sym_type := Some DOT, sym_name := PStr ''.''\<rparr>, advance s)
      else if c = '','' then
        Inr (Symbol\<lparr>sym_type := Some COMMA, sym_name := PStr '',''\<rparr>, advance s)
      else if c = '';'' then
        Inr (Symbol\<lparr>sym_type := Some SEMICOLON, sym_name := PStr '';''\<rparr>, advance s)
      else if c = ''('' then
        Inr (Symbol\<lparr>sym_type := Some OPEN_BRACKET, sym_name := PStr ''(''\<rparr>, advance s)
      else if c = '')'' then
        Inr (Symbol\<lparr>sym_type := Some CLOSE_BRACKET, sym_name := PStr '')''\<rparr>, advance s)
      else if c = ''['' then
        Inr (Symbol\<lparr>sym_type := Some OPEN_SQUARE_BRACKET, sym_name := PStr ''[''\<rparr>, advance s)
      else if c = '']'' then
        Inr (Symbol\<lparr>sym_type := Some CLOSE_SQUARE_BRACKET, sym_name := PStr '']''\<rparr>, advance s)
      else if c = [] then
        Inr (Symbol\<lparr>sym_name := PStr ''EOF'', sym_type := Some EOF\<rparr>, s)
      else
        Inr (Symbol,
             (add_scanner_error
                \<lparr>se_line_number = current_line s, se_char_number = int (current_position s),
                 se_error_code = INVALID_CHARACTER, se_message = ''Invalid character''\<rparr> s)
             \<lparr>error_count := error_count s + 1\<rparr>))"

text \<open>
  \<^verbatim>\<open>get_symbol\<close>: \<open>None\<close> when the call does not return, \<open>Inl\<close> when it raises,
  \<open>Inr\<close> with the symbol and the scanner when it returns.
\<close>

definition get_symbol :: "scanner \<Rightarrow> (exn + symbol \<times> scanner) option" where
  "get_symbol s0 =
     (let s1 = skip_spaces s0 in
      do {
        s2 \<leftarrow> (if current_character s1 = ''#''
               then skip_comment (advance s1)
               else Some s1);
        Some (classify (skip_spaces s2))
      })"

section \<open>The parser's collaborators\<close>

datatype error_code =
    INVALID_HEADER | INVALID_NAME | NAME_DEFINED | INVALID_LOGIC_GATE | INVALID_NUMBER
  | SYNTAX_ERROR | OVERFLOW_ERROR | INVALID_PIN | INVALID_DEVICE

text \<open>
  Modelled from the spec: the module \<^verbatim>\<open>errors\<close> (classes \<^verbatim>\<open>Error\<close> and \<^verbatim>\<open>ErrorCodes\<close>) is
  not among the sources. The spec gives a diagnostic as line number, rendered source
  line, column, kind and message, and the closed list of kinds above; \<^verbatim>\<open>add_error\<close>
  fills them from the scanner's position. The rendered line is left out, as for the
  scanner's own errors.
\<close>

record error =
  line_number :: nat
  char_number :: nat
  error_code :: error_code
  message :: string

datatype gate_kind = AND | NAND | OR | NOR | XOR

text \<open>
  Modelled from the spec: the modules \<^verbatim>\<open>devices\<close> and \<^verbatim>\<open>network\<close> are not among the
  sources. The spec gives the requests \<^verbatim>\<open>makeGate(identity, kind, inputCount)\<close>,
  \<^verbatim>\<open>makeDType(identity)\<close>, \<^verbatim>\<open>makeClock(identity, period)\<close>,
  \<^verbatim>\<open>makeSwitch(identity, initialOutput)\<close> and
  \<^verbatim>\<open>makeConnection(sourceIdentity, sourcePinOrNone, destIdentity, destPinIdentity)\<close>,
  and \<^verbatim>\<open>getDevice(identity) -> device | none\<close>, which exposes the device's ordered
  declared input-pin identities. The model keeps the requests the parser issues, in
  order. The parser is the only writer of the registry during a pass, so what
  \<^verbatim>\<open>get_device\<close> answers is a function of the requests issued so far; that function
  and the fixed pin identities are parameters. The status that \<^verbatim>\<open>make_connection\<close>
  returns is only printed by the parser and is not modelled.
\<close>

datatype request =
    MakeGate nat gate_kind int
  | MakeDType nat
  | MakeClock nat int
  | MakeSwitch nat int
  | MakeConnection "nat option" "nat option" nat nat

text \<open>\<^verbatim>\<open>inputs\<close> stands for the keys of the device's \<^verbatim>\<open>inputs\<close> dictionary, in order.\<close>

record device =
  inputs :: "nat list"

record devices =
  get_device :: "request list \<Rightarrow> nat \<Rightarrow> device option"
  Q_ID :: nat
  QBAR_ID :: nat
  CLK_ID :: nat
  DATA_ID :: nat
  SET_ID :: nat
  CLEAR_ID :: nat

section \<open>The parser\<close>

record parser =
  scanner :: scanner
  symbol :: symbol
  errors :: "error list"
  stored_device_list :: "pyval list"
  requests :: "request list"

definition quoted :: "string \<Rightarrow> string" where
  "quoted s = [CHR 0x27] @ s @ [CHR 0x27]"

fun str_nat :: "nat \<Rightarrow> string" where
  "str_nat n =
     (if n < 10 then [char_of (48 + n)] else str_nat (n div 10) @ [char_of (48 + n mod 10)])"

fun py_str :: "pyval \<Rightarrow> string" where
  "py_str (PStr s) = s"
| "py_str (PInt n) = (if n < 0 then ''-'' @ str_nat (nat (- n)) else str_nat (nat n))"

text \<open>
  \<^verbatim>\<open>int(self.symbol.name)\<close> where the symbol is a number: the scanner gives a number
  token an \<^verbatim>\<open>int\<close> for its name (lemma \<open>classify_NUMBER\<close> below), and \<^verbatim>\<open>int\<close> of an
  \<^verbatim>\<open>int\<close> is that \<^verbatim>\<open>int\<close>.
\<close>

fun int_value :: "pyval \<Rightarrow> int" where
  "int_value (PInt n) = n"
| "int_value (PStr s) = int_of_digits s"

definition Parser :: "scanner \<Rightarrow> (exn + parser) option" where
  "Parser sc =
     bind_res (get_symbol sc)
       (\<lambda>(tok, sc1).
          Some (Inr \<lparr>scanner = sc1, symbol = tok, errors = [], stored_device_list = [],
                     requests = []\<rparr>))"

definition add_error :: "error_code \<Rightarrow> string \<Rightarrow> parser \<Rightarrow> parser" where
  "add_error code msg p =
     p\<lparr>errors := errors p @
         [\<lparr>line_number = current_line (scanner p), char_number = current_position (scanner p),
           error_code = code, message = msg\<rparr>]\<rparr>"

definition parser_advance :: "parser \<Rightarrow> (exn + parser) option" where
  "parser_advance p =
     bind_res (get_symbol (scanner p))
       (\<lambda>(tok, sc1). Some (Inr (p\<lparr>scanner := sc1, symbol := tok\<rparr>)))"

text \<open>
  \<^verbatim>\<open>validate_device_name\<close> returns \<^verbatim>\<open>True\<close>, \<^verbatim>\<open>False\<close>, or falls off its end
  (\<^verbatim>\<open>None\<close>) when the symbol is not a name; its callers only test the truth value.
\<close>

definition validate_device_name :: "pyval list \<Rightarrow> parser \<Rightarrow> bool \<times> parser" where
  "validate_device_name device_list p =
     (if sym_type (symbol p) = Some NAME then
        (if sym_name (symbol p) \<notin> set device_list
            \<and> sym_name (symbol p) \<notin> set (stored_device_list p)
         then (True, p)
         else (False,
               add_error NAME_DEFINED
                 (''Name '' @ quoted (py_str (sym_name (symbol p))) @ '' already defined'') p))
      else (False, add_error INVALID_NAME ''Expected name'' p))"

text \<open>
  \<^verbatim>\<open>device_ids = self.names.lookup(device_list)\<close> followed by one creation request
  per identity.
\<close>

definition make_devices :: "(nat \<Rightarrow> request) \<Rightarrow> pyval list \<Rightarrow> parser \<Rightarrow> parser" where
  "make_devices mk device_list p =
     (let (device_ids, table) = lookup (names (scanner p)) device_list
      in p\<lparr>scanner := (scanner p)\<lparr>names := table\<rparr>,
           requests := requests p @ map mk device_ids\<rparr>)"

subsection \<open>Device statements\<close>

text \<open>
  The tail of a gate production once the statement does not end at the kind: an opening
  bracket, a number, the range test, a closing bracket and the semicolon. In
  \<^verbatim>\<open>parse_logic_gate\<close> this text is written out once for each of AND, NAND, OR, NOR,
  XOR, CLOCK and SWITCH; the copies differ in the range test, its message and the
  creation request, which are the parameters here. The range test only records its
  diagnostic: the statements after it run whatever it found.
\<close>

definition parse_bracket_number ::
  "(int \<Rightarrow> bool) \<Rightarrow> string \<Rightarrow> (int \<Rightarrow> nat \<Rightarrow> request) \<Rightarrow> pyval list \<Rightarrow> parser
     \<Rightarrow> (exn + parser) option" where
  "parse_bracket_number out_of_range msg mk device_list p =
     (if sym_type (symbol p) = Some OPEN_BRACKET then
        bind_res (parser_advance p)
          (\<lambda>p1.
             if sym_type (symbol p1) = Some NUMBER then
               (let number_inps = int_value (sym_name (symbol p1));
                    p2 = (if out_of_range number_inps then add_error INVALID_NUMBER msg p1 else p1)
                in bind_res (parser_advance p2)
                     (\<lambda>p3.
                        if sym_type (symbol p3) = Some CLOSE_BRACKET then
                          bind_res (parser_advance p3)
                            (\<lambda>p4.
                               if sym_type (symbol p4) = Some SEMICOLON
                               then Some (Inr (make_devices (mk number_inps) device_list p4))
                               else Some (Inr (add_error SYNTAX_ERROR
                                                 (''Expected '' @ quoted '';'') p4)))
                        else Some (Inr (add_error SYNTAX_ERROR (''Expected '' @ quoted '')'') p3))))
             else Some (Inr (add_error SYNTAX_ERROR ''Expected number'' p1)))
      else Some (Inr (add_error SYNTAX_ERROR (''Expected '' @ quoted ''('') p)))"

text \<open>
  A production whose parameter may be left out (the gates and SWITCH): a semicolon
  straight after the kind creates the devices with the default.
\<close>

definition parse_optional_number ::
  "int \<Rightarrow> (int \<Rightarrow> bool) \<Rightarrow> string \<Rightarrow> (int \<Rightarrow> nat \<Rightarrow> request) \<Rightarrow> pyval list \<Rightarrow> parser
     \<Rightarrow> (exn + parser) option" where
  "parse_optional_number dflt out_of_range msg mk device_list p =
     (if sym_type (symbol p) = Some SEMICOLON
      then Some (Inr (make_devices (mk dflt) device_list p))
      else parse_bracket_number out_of_range msg mk device_list p)"

definition gate_range :: "int \<Rightarrow> bool" where
  "gate_range number_inps = (number_inps < 1 \<or> number_inps > 16)"

definition gate_message :: string where
  "gate_message = ''Number of inputs must be between 1 and 16''"

text \<open>
  \<^verbatim>\<open>parse_logic_gate\<close> is a sequence of \<^verbatim>\<open>if (gate == ...)\<close> statements, not a chain
  of \<^verbatim>\<open>elif\<close>: each test is made in turn on the same \<^verbatim>\<open>gate\<close>.
\<close>

definition parse_logic_gate :: "pyval \<Rightarrow> pyval list \<Rightarrow> parser \<Rightarrow> (exn + parser) option" where
  "parse_logic_gate gate device_list p0 =
     bind_res
       (if gate = PStr ''AND''
        then parse_optional_number 2 gate_range gate_message
               (\<lambda>n i. MakeGate i AND n) device_list p0
        else Some (Inr p0))
     (\<lambda>p1. bind_res
       (if gate = PStr ''NAND''
        then parse_optional_number 2 gate_range gate_message
               (\<lambda>n i. MakeGate i NAND n) device_list p1
        else Some (Inr p1))
     (\<lambda>p2. bind_res
       (if gate = PStr ''OR''
        then parse_optional_number 2 gate_range gate_message
               (\<lambda>n i. MakeGate i OR n) device_list p2
        else Some (Inr p2))
     (\<lambda>p3. bind_res
       (if gate = PStr ''NOR''
        then parse_optional_number 2 gate_range gate_message
               (\<lambda>n i. MakeGate i NOR n) device_list p3
        else Some (Inr p3))
     (\<lambda>p4. bind_res
       (if gate = PStr ''XOR''
        then parse_optional_number 2 (\<lambda>number_inps. number_inps \<noteq> 2)
               ''Number of inputs must be 2''
               (\<lambda>n i. MakeGate i XOR n) device_list p4
        else Some (Inr p4))
     (\<lambda>p5. bind_res
       (if gate = PStr ''DTYPE''
        then (if sym_type (symbol p5) = Some SEMICOLON
              then Some (Inr (make_devices MakeDType device_list p5))
              else Some (Inr (add_error SYNTAX_ERROR (''Expected '' @ quoted '';'') p5)))
        else Some (Inr p5))
     (\<lambda>p6. bind_res
       (if gate = PStr ''CLOCK''
        then parse_bracket_number (\<lambda>clock_period. clock_period < 1)
               ''Clock period must be greater than 0''
               (\<lambda>n i. MakeClock i n) device_list p6
        else Some (Inr p6))
     (\<lambda>p7.
       if gate = PStr ''SWITCH''
       then parse_optional_number 0 (\<lambda>switch_output. switch_output < 0 \<or> switch_output > 1)
              ''Output must be between 0 or 1''
              (\<lambda>n i. MakeSwitch i n) device_list p7
       else Some (Inr p7))))))))"

text \<open>
  The comma loop of \<^verbatim>\<open>parse_device_line\<close>. It returns the device list, the flag
  \<^verbatim>\<open>devices_are_valid\<close> and the parser. Only names met inside this loop are appended
  to \<^verbatim>\<open>stored_device_list\<close>.
\<close>

partial_function (option) device_names_loop ::
  "pyval list \<Rightarrow> bool \<Rightarrow> parser \<Rightarrow> (exn + pyval list \<times> bool \<times> parser) option" where
  "device_names_loop device_list devices_are_valid p =
     (if sym_type (symbol p) = Some COMMA \<and> devices_are_valid then
        bind_res (parser_advance p)
          (\<lambda>p1.
             if sym_type (symbol p1) = Some EQUAL
             then Some (Inr (device_list, devices_are_valid, p1))
             else if fst (validate_device_name device_list p1) then
               bind_res
                 (parser_advance
                    ((snd (validate_device_name device_list p1))
                       \<lparr>stored_device_list :=
                          stored_device_list (snd (validate_device_name device_list p1))
                            @ [sym_name (symbol p1)]\<rparr>))
                 (\<lambda>p2. device_names_loop (device_list @ [sym_name (symbol p1)])
                         devices_are_valid p2)
             else device_names_loop device_list False
                    (snd (validate_device_name device_list p1)))
      else Some (Inr (device_list, devices_are_valid, p)))"

declare device_names_loop.simps [code]

definition parse_device_line :: "parser \<Rightarrow> (exn + parser) option" where
  "parse_device_line p =
     (let device_list = [] in
      if fst (validate_device_name device_list p) then
        (let p0 = snd (validate_device_name device_list p);
             device_list = device_list @ [sym_name (symbol p0)]
         in bind_res (parser_advance p0)
              (\<lambda>p1. bind_res (device_names_loop device_list True p1)
              (\<lambda>(device_list, devices_are_valid, p2).
                 if devices_are_valid then
                   (if sym_type (symbol p2) = Some EQUAL then
                      bind_res (parser_advance p2)
                        (\<lambda>p3.
                           if sym_type (symbol p3) = Some LOGIC then
                             (let gate = sym_name (symbol p3)
                              in bind_res (parser_advance p3)
                                   (\<lambda>p4. bind_res (parse_logic_gate gate device_list p4)
                                   (\<lambda>p5. parser_advance p5)))
                           else Some (Inr (add_error INVALID_LOGIC_GATE
                                             ''Expected logic gate'' p3)))
                    else Some (Inr (add_error SYNTAX_ERROR (''Expected '' @ quoted ''='') p2)))
                 else Some (Inr p2))))
      else Some (Inr (snd (validate_device_name device_list p))))"

text \<open>
  The statement loop of \<^verbatim>\<open>parse_devices\<close>, with its counter. The counter bounds the
  number of rounds, so the recursion is well-founded whatever the statements do.
\<close>

function parse_devices_loop :: "nat \<Rightarrow> parser \<Rightarrow> (exn + parser) option" where
  "parse_devices_loop i p =
     (if sym_type (symbol p) \<noteq> Some OPEN_SQUARE_BRACKET then
        (if sym_type (symbol p) = Some HEADING
         then Some (Inr (add_error SYNTAX_ERROR ''Expected [conns] block'' p))
         else if sym_type (symbol p) = Some EOF
         then Some (Inr (add_error SYNTAX_ERROR ''Expected [conns] block'' p))
         else if i + 1 > 500
         then Some (Inr (add_error OVERFLOW_ERROR
                     ''Overflow error: Looping too many times in devices, please check that you have a [conns] block''
                     p))
         else (case parse_device_line p of
                 None \<Rightarrow> None
               | Some (Inl e) \<Rightarrow> Some (Inl e)
               | Some (Inr p1) \<Rightarrow> parse_devices_loop (i + 1) p1))
      else Some (Inr p))"
  by pat_completeness auto
termination
  by (relation "measure (\<lambda>(i, p). 501 - i)") auto

definition parse_devices :: "parser \<Rightarrow> (exn + parser) option" where
  "parse_devices p = parse_devices_loop 0 p"

definition parse_devices_block :: "parser \<Rightarrow> (exn + parser) option" where
  "parse_devices_block p =
     (if sym_type (symbol p) = Some OPEN_SQUARE_BRACKET then
        bind_res (parser_advance p)
          (\<lambda>p1.
             if sym_type (symbol p1) = Some HEADING \<and> sym_name (symbol p1) = PStr ''devices'' then
               bind_res (parser_advance p1)
                 (\<lambda>p2.
                    if sym_type (symbol p2) = Some CLOSE_SQUARE_BRACKET
                    then bind_res (parser_advance p2) (\<lambda>p3. parse_devices p3)
                    else Some (Inr (add_error INVALID_HEADER (''Expected '' @ quoted '']'') p2)))
             else Some (Inr (add_error INVALID_HEADER (''Expected '' @ quoted ''devices'') p1)))
      else Some (Inr (add_error INVALID_HEADER (''Expected '' @ quoted ''['') p)))"

subsection \<open>Connection statements\<close>

text \<open>
  \<^verbatim>\<open>re.match(r'^I.*([1-9]|1[0-6])$', string)\<close> on a string with no line break (a
  token has none): the string starts with \<open>I\<close>, and what follows is not empty and ends
  in one of the digits 1 to 9, or in a 1 followed by one of the digits 0 to 6. The
  characters in between are not constrained.
\<close>

definition input_pattern :: "string \<Rightarrow> bool" where
  "input_pattern string =
     (case string of
        [] \<Rightarrow> False
      | c # rest \<Rightarrow>
          c = CHR ''I'' \<and> rest \<noteq> [] \<and>
          (last rest \<in> set ''123456789'' \<or>
           (2 \<le> length rest \<and> last (butlast rest) = CHR ''1'' \<and> last rest \<in> set ''0123456'')))"

definition dtype_pins :: "string list" where
  "dtype_pins = [''CLK'', ''DATA'', ''Q'', ''QBAR'']"

text \<open>\<^verbatim>\<open>re.match\<close> raises TypeError when it is handed the \<^verbatim>\<open>int\<close> of a number token.\<close>

definition check_inputs_name :: "pyval \<Rightarrow> parser \<Rightarrow> exn + bool \<times> parser" where
  "check_inputs_name string p =
     (case string of
        PInt n \<Rightarrow> Inl TypeError
      | PStr s \<Rightarrow>
          if input_pattern s \<or> s \<in> set dtype_pins then Inr (True, p)
          else Inr (False, add_error INVALID_NAME ''Invalid name for device input'' p))"

definition validate_device_name_for_conns :: "parser \<Rightarrow> bool \<times> parser" where
  "validate_device_name_for_conns p =
     (if query (names (scanner p)) (sym_name (symbol p)) = None
      then (False, add_error INVALID_NAME ''Invalid device name'' p)
      else (True, p))"

text \<open>
  The loop \<^verbatim>\<open>while self.symbol.type not in [SEMICOLON, EOF]\<close> of
  \<^verbatim>\<open>parse_conns_line\<close>. A round whose name is not in the table reads no symbol, so
  the loop need not end: it is a partial function. Its result is an exception, or
  both lists and the parser.
\<close>

partial_function (option) conns_sources_loop ::
  "pyval list \<Rightarrow> pyval list \<Rightarrow> parser \<Rightarrow> (exn + pyval list \<times> pyval list \<times> parser) option" where
  "conns_sources_loop device_list ports_list p =
     (if sym_type (symbol p) \<noteq> Some SEMICOLON \<and> sym_type (symbol p) \<noteq> Some EOF then
        (if fst (validate_device_name_for_conns p) then
           bind_res (parser_advance (snd (validate_device_name_for_conns p)))
             (\<lambda>p1.
                if sym_type (symbol p1) = Some DOT then
                  bind_res (parser_advance p1)
                    (\<lambda>p2.
                       case check_inputs_name (sym_name (symbol p2)) p2 of
                         Inl e \<Rightarrow> Some (Inl e)
                       | Inr r \<Rightarrow>
                           if fst r then
                             bind_res (parser_advance (snd r))
                               (\<lambda>p3.
                                  if sym_type (symbol p3) = Some SEMICOLON then
                                    bind_res (parser_advance p3)
                                      (\<lambda>p4.
                                         Some (Inr (device_list @ [sym_name (symbol p)],
                                                    ports_list @ [sym_name (symbol p2)], p4)))
                                  else if sym_type (symbol p3) = Some COMMA then
                                    bind_res (parser_advance p3)
                                      (\<lambda>p4.
                                         conns_sources_loop (device_list @ [sym_name (symbol p)])
                                           (ports_list @ [sym_name (symbol p2)]) p4)
                                  else conns_sources_loop (device_list @ [sym_name (symbol p)])
                                         (ports_list @ [sym_name (symbol p2)]) p3)
                           else conns_sources_loop (device_list @ [sym_name (symbol p)])
                                  ports_list (snd r))
                else conns_sources_loop (device_list @ [sym_name (symbol p)]) ports_list p1)
         else conns_sources_loop device_list ports_list (snd (validate_device_name_for_conns p)))
      else Some (Inr (device_list, ports_list, p)))"

declare conns_sources_loop.simps [code]

text \<open>
  The choice of the sink's output pin: \<^verbatim>\<open>dtype_mapping[ports_list[0]]\<close> and
  \<^verbatim>\<open>ports_list.pop(0)\<close> when both lists have the same length, \<^verbatim>\<open>None\<close> otherwise.
\<close>

definition dtype_mapping :: "devices \<Rightarrow> pyval \<Rightarrow> exn + nat" where
  "dtype_mapping devs key =
     (if key = PStr ''Q'' then Inr (Q_ID devs)
      else if key = PStr ''QBAR'' then Inr (QBAR_ID devs)
      else Inl KeyError)"

definition select_output_pin ::
  "devices \<Rightarrow> pyval list \<Rightarrow> pyval list \<Rightarrow> exn + nat option \<times> pyval list" where
  "select_output_pin devs device_list ports_list =
     (if length ports_list = length device_list then
        (case py_index ports_list 0 of
           Inl e \<Rightarrow> Inl e
         | Inr key \<Rightarrow>
             (case dtype_mapping devs key of
                Inl e \<Rightarrow> Inl e
              | Inr output_device_pin_id \<Rightarrow> Inr (Some output_device_pin_id, tl ports_list)))
      else Inr (None, ports_list))"

text \<open>
  The choice of \<^verbatim>\<open>input_id\<close> in one round of the loop over the input devices. The
  result is the pin identity, if one was chosen, and the parser. In \<^verbatim>\<open>if input_dev:\<close>
  a device object counts as true and \<^verbatim>\<open>None\<close> as false.
\<close>

definition select_input_pin ::
  "devices \<Rightarrow> pyval \<Rightarrow> device option \<Rightarrow> parser \<Rightarrow> exn + nat option \<times> parser" where
  "select_input_pin devs port_name input_dev p =
     (if port_name \<in> set [PStr ''CLK'', PStr ''DATA'', PStr ''SET'', PStr ''CLEAR''] then
        Inr (Some (if port_name = PStr ''CLK'' then CLK_ID devs
                   else if port_name = PStr ''DATA'' then DATA_ID devs
                   else if port_name = PStr ''SET'' then SET_ID devs
                   else CLEAR_ID devs), p)
      else
        (case port_name of
           PInt n \<Rightarrow> Inl TypeError
         | PStr s \<Rightarrow>
             (case py_int (PStr (drop 1 s)) of
                Inl e \<Rightarrow> Inl e
              | Inr n \<Rightarrow>
                  (let input_device_pin_index = n - 1 in
                   case input_dev of
                     Some dev \<Rightarrow>
                       (let input_keys = inputs dev in
                        if input_device_pin_index < int (length input_keys) then
                          Inr (None,
                               add_error INVALID_PIN
                                 (''Invalid pin for device input, device only has ''
                                    @ str_nat (length input_keys) @ '' inputs'') p)
                        else
                          (case py_index input_keys input_device_pin_index of
                             Inl e \<Rightarrow> Inl e
                           | Inr input_id \<Rightarrow> Inr (Some input_id, p)))
                   | None \<Rightarrow>
                       Inr (None,
                            add_error INVALID_DEVICE
                              (''Device not defined in '' @ quoted ''devices'') p)))))"

text \<open>
  One round of \<^verbatim>\<open>for i, input_dev in enumerate(input_devices)\<close>. The test
  \<^verbatim>\<open>if input_id:\<close> is false for \<^verbatim>\<open>None\<close> and for the identity 0.
\<close>

definition connect_input ::
  "devices \<Rightarrow> nat option \<Rightarrow> nat option \<Rightarrow> pyval list \<Rightarrow> nat list \<Rightarrow> nat \<Rightarrow> device option
     \<Rightarrow> parser \<Rightarrow> exn + parser" where
  "connect_input devs output_device_id output_device_pin_id ports_list input_device_ids i
       input_dev p =
     (case py_index ports_list (int i) of
        Inl e \<Rightarrow> Inl e
      | Inr port_name \<Rightarrow>
          (case select_input_pin devs port_name input_dev p of
             Inl e \<Rightarrow> Inl e
           | Inr (input_id, p1) \<Rightarrow>
               (case input_id of
                  None \<Rightarrow> Inr p1
                | Some pin \<Rightarrow>
                    if pin = 0 then Inr p1
                    else
                      (case py_index input_device_ids (int i) of
                         Inl e \<Rightarrow> Inl e
                       | Inr dev_id \<Rightarrow>
                           Inr (p1\<lparr>requests := requests p1 @
                                   [MakeConnection output_device_id output_device_pin_id
                                      dev_id pin]\<rparr>)))))"

fun connect_inputs ::
  "devices \<Rightarrow> nat option \<Rightarrow> nat option \<Rightarrow> pyval list \<Rightarrow> nat list \<Rightarrow> (nat \<times> device option) list
     \<Rightarrow> parser \<Rightarrow> exn + parser" where
  "connect_inputs devs output_device_id output_device_pin_id ports_list input_device_ids [] p =
     Inr p"
| "connect_inputs devs output_device_id output_device_pin_id ports_list input_device_ids
       ((i, input_dev) # rest) p =
     (case connect_input devs output_device_id output_device_pin_id ports_list input_device_ids
             i input_dev p of
        Inl e \<Rightarrow> Inl e
      | Inr p1 \<Rightarrow>
          connect_inputs devs output_device_id output_device_pin_id ports_list input_device_ids
            rest p1)"

text \<open>
  What \<^verbatim>\<open>parse_conns_line\<close> does with the two lists after its loop. The value of
  \<^verbatim>\<open>self.devices.get_device(output_device_id)\<close> is never used and is not computed
  here.
\<close>

definition make_connections :: "devices \<Rightarrow> pyval list \<Rightarrow> pyval list \<Rightarrow> parser \<Rightarrow> exn + parser" where
  "make_connections devs device_list ports_list p =
     (case py_index device_list 0 of
        Inl e \<Rightarrow> Inl e
      | Inr sink \<Rightarrow>
          (let output_device_id = query (names (scanner p)) sink;
               (input_device_ids, table) = lookup (names (scanner p)) (drop 1 device_list);
               p1 = p\<lparr>scanner := (scanner p)\<lparr>names := table\<rparr>\<rparr>;
               input_devices = map (get_device devs (requests p1)) input_device_ids
           in case select_output_pin devs device_list ports_list of
                Inl e \<Rightarrow> Inl e
              | Inr (output_device_pin_id, ports_list1) \<Rightarrow>
                  connect_inputs devs output_device_id output_device_pin_id ports_list1
                    input_device_ids (enumerate 0 input_devices) p1))"

text \<open>
  The first lines of \<^verbatim>\<open>parse_conns_line\<close> once the sink's name is accepted: the name
  opens \<^verbatim>\<open>device_list\<close>, and a dot after it is followed by the output tag, which opens
  \<^verbatim>\<open>ports_list\<close> when it is \<^verbatim>\<open>Q\<close> or \<^verbatim>\<open>QBAR\<close>.
\<close>

definition conns_sink :: "parser \<Rightarrow> (exn + pyval list \<times> pyval list \<times> parser) option" where
  "conns_sink p0 =
     bind_res (parser_advance p0)
       (\<lambda>p1.
          if sym_type (symbol p1) = Some DOT then
            bind_res (parser_advance p1)
              (\<lambda>pa.
                 if sym_name (symbol pa) \<in> set [PStr ''Q'', PStr ''QBAR'']
                 then bind_res (parser_advance pa)
                        (\<lambda>pb. Some (Inr ([sym_name (symbol p0)], [sym_name (symbol pa)], pb)))
                 else Some (Inr ([sym_name (symbol p0)], [],
                                 add_error INVALID_PIN
                                   ''Invalid name for device output of DTYPE'' pa)))
          else Some (Inr ([sym_name (symbol p0)], [], p1)))"

definition parse_conns_line :: "devices \<Rightarrow> parser \<Rightarrow> (exn + parser) option" where
  "parse_conns_line devs p =
     (if fst (validate_device_name_for_conns p) then
        bind_res (conns_sink (snd (validate_device_name_for_conns p)))
          (\<lambda>(device_list, ports_list, p2).
             if sym_type (symbol p2) = Some EQUAL then
               bind_res (parser_advance p2)
                 (\<lambda>p3. bind_res (conns_sources_loop device_list ports_list p3)
                 (\<lambda>(device_list1, ports_list1, p4).
                    Some (make_connections devs device_list1 ports_list1 p4)))
             else Some (Inr p2))
      else Some (Inr (add_error INVALID_DEVICE
                        (''Device name not defined in '' @ quoted ''devices'')
                        (snd (validate_device_name_for_conns p)))))"

function parse_conns_loop :: "devices \<Rightarrow> nat \<Rightarrow> parser \<Rightarrow> (exn + parser) option" where
  "parse_conns_loop devs i p =
     (if sym_type (symbol p) \<noteq> Some OPEN_SQUARE_BRACKET then
        (if sym_type (symbol p) = Some HEADING
         then Some (Inr (add_error SYNTAX_ERROR ''Expected [conns] block'' p))
         else if sym_type (symbol p) = Some EOF
         then Some (Inr (add_error SYNTAX_ERROR ''Expected [conns] block'' p))
         else if i + 1 > 500
         then Some (Inr (add_error OVERFLOW_ERROR
                     ''Overflow error: Looping too many times in devices, please check that you have a [conns] block''
                     p))
         else (case parse_conns_line devs p of
                 None \<Rightarrow> None
               | Some (Inl e) \<Rightarrow> Some (Inl e)
               | Some (Inr p1) \<Rightarrow> parse_conns_loop devs (i + 1) p1))
      else Some (Inr p))"
  by pat_completeness auto
termination
  by (relation "measure (\<lambda>(devs, i, p). 501 - i)") auto

definition parse_conns :: "devices \<Rightarrow> parser \<Rightarrow> (exn + parser) option" where
  "parse_conns devs p = parse_conns_loop devs 0 p"

definition parse_conns_block :: "devices \<Rightarrow> parser \<Rightarrow> (exn + parser) option" where
  "parse_conns_block devs p =
     (if sym_type (symbol p) = Some OPEN_SQUARE_BRACKET then
        bind_res (parser_advance p)
          (\<lambda>p1.
             if sym_type (symbol p1) = Some HEADING \<and> sym_name (symbol p1) = PStr ''conns'' then
               bind_res (parser_advance p1)
                 (\<lambda>p2.
                    if sym_type (symbol p2) = Some CLOSE_SQUARE_BRACKET
                    then bind_res (parser_advance p2) (\<lambda>p3. parse_conns devs p3)
                    else Some (Inr (add_error INVALID_HEADER (''Expected '' @ quoted '']'') p2)))
             else Some (Inr (add_error INVALID_HEADER (''Expected '' @ quoted ''conns'') p1)))
      else Some (Inr (add_error INVALID_HEADER (''Expected '' @ quoted ''['') p)))"

text \<open>
  \<^verbatim>\<open>parse_network\<close>: both blocks, then \<^verbatim>\<open>return True\<close>. The result is \<open>None\<close> when
  the pass does not return, an exception, or the returned value with the parser.
\<close>

definition parse_network :: "devices \<Rightarrow> parser \<Rightarrow> (exn + bool \<times> parser) option" where
  "parse_network devs p =
     bind_res (parse_devices_block p)
       (\<lambda>p1. bind_res (parse_conns_block devs p1)
       (\<lambda>p2. Some (Inr (True, p2))))"

text \<open>
  A pass over the text of a file, as the test fixture sets it up: a scanner and a
  parser on a fresh name table, then \<^verbatim>\<open>parse_network\<close>.
\<close>

definition run_parser :: "devices \<Rightarrow> string \<Rightarrow> (exn + bool \<times> parser) option" where
  "run_parser devs content =
     bind_res (Parser (Scanner content [])) (\<lambda>p. parse_network devs p)"

text \<open>
  What a finished pass leaves behind: the value \<^verbatim>\<open>parse_network\<close> returned, the kinds
  of the parser's diagnostics, the kinds of the scanner's diagnostics and the requests
  issued, all in order. \<open>None\<close> is the pass that does not return, \<open>Inl\<close> the pass
  that an exception ends.
\<close>

definition outcome ::
  "(exn + bool \<times> parser) option
     \<Rightarrow> (exn + bool \<times> error_code list \<times> scanner_error_code list \<times> request list) option" where
  "outcome r =
     map_option
       (map_sum id
          (\<lambda>(b, p). (b, map error_code (errors p), map se_error_code (scan_errors (scanner p)),
                     requests p)))
       r"

text \<open>One device statement on its own: a parser started on its text, then \<^verbatim>\<open>parse_device_line\<close>.\<close>

definition run_device_line :: "string \<Rightarrow> (exn + parser) option" where
  "run_device_line content = bind_res (Parser (Scanner content [])) parse_device_line"

text \<open>
  A registry to run examples against. A device exists once a creation request for
  its identity has been issued; a gate created with \<open>n\<close> inputs has \<open>n\<close> input pins
  (identities 301, 302, ...), a flip-flop has the four fixed input pins, a clock and a
  switch have none. The fixed pin identities are 201 to 206.
\<close>

fun created :: "request \<Rightarrow> nat option" where
  "created (MakeGate i k n) = Some i"
| "created (MakeDType i) = Some i"
| "created (MakeClock i n) = Some i"
| "created (MakeSwitch i n) = Some i"
| "created (MakeConnection a b c d) = None"

fun pins_of :: "request \<Rightarrow> nat list" where
  "pins_of (MakeGate i k n) = map (\<lambda>j. 301 + j) [0..<nat n]"
| "pins_of (MakeDType i) = [203, 205, 206, 204]"
| "pins_of r = []"

definition demo_devices :: devices where
  "demo_devices =
     \<lparr>get_device =
        (\<lambda>log i. case filter (\<lambda>r. created r = Some i) log of
                    [] \<Rightarrow> None
                  | r # rs \<Rightarrow> Some \<lparr>inputs = pins_of r\<rparr>),
      Q_ID = 201, QBAR_ID = 202, CLK_ID = 203, DATA_ID = 204, SET_ID = 205, CLEAR_ID = 206\<rparr>"






text \<open>The output tags that \<^verbatim>\<open>parse_conns_line\<close> collects for the sink.\<close>

definition output_tags :: "pyval set" where
  "output_tags = {PStr ''Q'', PStr ''QBAR''}"

text \<open>
  The two lists at any moment of \<^verbatim>\<open>parse_conns_line\<close>: there is a sink, and either
  the pin list starts with an output tag and is no longer than the device list, or it
  is strictly shorter.
\<close>

definition tag_shape :: "pyval list \<Rightarrow> pyval list \<Rightarrow> bool" where
  "tag_shape device_list ports_list =
     (device_list \<noteq> [] \<and>
      ((ports_list \<noteq> [] \<and> hd ports_list \<in> output_tags
          \<and> length ports_list \<le> length device_list)
       \<or> length ports_list < length device_list))"

text \<open>
  The device names and pin tags that \<^verbatim>\<open>parse_conns_line\<close> holds when its loop has
  ended, with the parser at that point, for a statement that got that far: its sink
  is in the name table, the equals sign follows and the loop returns without an
  exception. \<open>None\<close> for every other statement.
\<close>

definition collected :: "parser \<Rightarrow> (pyval list \<times> pyval list \<times> parser) option" where
  "collected p =
     (if fst (validate_device_name_for_conns p) then
        (case conns_sink (snd (validate_device_name_for_conns p)) of
           Some (Inr (dl0, pl0, p2)) \<Rightarrow>
             if sym_type (symbol p2) = Some EQUAL then
               (case parser_advance p2 of
                  Some (Inr p3) \<Rightarrow>
                    (case conns_sources_loop dl0 pl0 p3 of
                       Some (Inr r) \<Rightarrow> Some r
                     | _ \<Rightarrow> None)
                | _ \<Rightarrow> None)
             else None
         | _ \<Rightarrow> None)
      else None)"

text \<open>
  States for examples: the parser in front of \<^verbatim>\<open>.Q = a.I1;\<close> with \<^verbatim>\<open>d\<close> read and
  both names in the table, and the same statement at its end; the parser in front of
  \<^verbatim>\<open>, g2 = AND(17);\<close> with \<^verbatim>\<open>g1\<close> read, and the scanner at the end of that text.
\<close>

definition sink_tag_parser :: parser where
  "sink_tag_parser =
     \<lparr>scanner =
        \<lparr>file_in = ''Q = a.I1;'', names = [PStr ''d'', PStr ''a''], scan_errors = [],
         current_character = ''.'', current_position = 2, current_line = 0, error_count = 0\<rparr>,
      symbol = \<lparr>sym_type = Some NAME, sym_id = Some 0, sym_name = PStr ''d''\<rparr>,
      errors = [], stored_device_list = [], requests = []\<rparr>"

definition sink_tag_parser_end :: parser where
  "sink_tag_parser_end =
     \<lparr>scanner =
        \<lparr>file_in = [], names = [PStr ''d'', PStr ''a'', PStr ''Q'', PStr ''I1''],
         scan_errors = [], current_character = [], current_position = 12, current_line = 0,
         error_count = 0\<rparr>,
      symbol = \<lparr>sym_type = Some EOF, sym_id = None, sym_name = PStr ''EOF''\<rparr>,
      errors = [], stored_device_list = [], requests = []\<rparr>"



section \<open>Range violations in device statements\<close>

text \<open>
  C8: parsing the single device statement \<^verbatim>\<open>g1 = AND(17);\<close> records exactly one
  INVALID_NUMBER diagnostic, and so does parsing \<^verbatim>\<open>g1 = XOR(3);\<close>; no diagnostic of
  another kind is recorded for the statement, neither by the parser nor by the
  scanner. The same holds for a whole pass over a devices section that holds only
  this statement, followed by an empty connections section.
\<close>

theorem invalid_number_exactly_once:
  "map_option (map_sum id (\<lambda>p. (map error_code (errors p), scan_errors (scanner p))))
     (run_device_line ''g1 = AND(17);'') = Some (Inr ([INVALID_NUMBER], []))
   \<and> map_option (map_sum id (\<lambda>p. (map error_code (errors p), scan_errors (scanner p))))
       (run_device_line ''g1 = XOR(3);'') = Some (Inr ([INVALID_NUMBER], []))
   \<and> outcome (run_parser devs ''[devices] g1 = AND(17); [conns] [monit]'')
       = Some (Inr (True, [INVALID_NUMBER], [], [MakeGate 0 AND 17]))
   \<and> outcome (run_parser devs ''[devices] g1 = XOR(3); [conns] [monit]'')
       = Some (Inr (True, [INVALID_NUMBER], [], [MakeGate 0 XOR 3]))"
  by code_simp

section \<open>The result of a pass\<close>

text \<open>
  C1: \<^verbatim>\<open>parse_network\<close> returns the accepting result if and only if no diagnostic was
  recorded during the pass. Evaluated on the empty file: both section headers are
  missing, two INVALID_HEADER diagnostics are recorded, and the value returned is
  \<^verbatim>\<open>True\<close> all the same.
\<close>

theorem parse_network_returns_True_with_diagnostics:
  "outcome (run_parser devs []) = Some (Inr (True, [INVALID_HEADER, INVALID_HEADER], [], []))"
  by code_simp

section \<open>Duplicate device names\<close>

text \<open>
  C2: a device name declared twice yields at least one NAME_DEFINED diagnostic, also
  when the name is the head of an earlier statement and is declared again in a later
  one. Evaluated on \<^verbatim>\<open>g1 = AND; g1 = AND;\<close>: the pass records no diagnostic at all and
  issues two creation requests for the one identity of \<^verbatim>\<open>g1\<close>.
\<close>

theorem head_name_declared_twice_is_accepted:
  "outcome (run_parser devs ''[devices] g1 = AND; g1 = AND; [conns] [monit]'')
     = Some (Inr (True, [], [], [MakeGate 0 AND 2, MakeGate 0 AND 2]))"
  by code_simp

section \<open>The scanner on characters it does not know and on comments\<close>

text \<open>
  C5: on a character that starts no token the scanner records one invalid-character
  diagnostic, consumes the character and returns no usable token, so that the next
  call examines the next character. Evaluated on the stream \<^verbatim>\<open>+;\<close>: after the first
  call the current character is still \<^verbatim>\<open>+\<close> and the semicolon is still unread; the
  second call meets the same \<^verbatim>\<open>+\<close> and records a second diagnostic.
\<close>

theorem invalid_character_is_not_consumed:
  "bind_res (get_symbol (Scanner ''+;'' []))
     (\<lambda>(tok1, s1). bind_res (get_symbol s1)
     (\<lambda>(tok2, s2).
        Some (Inr (sym_type tok1, current_character s1, file_in s1,
                   sym_type tok2, current_character s2, file_in s2,
                   map se_error_code (scan_errors s2)))))
   = Some (Inr (None, ''+'', '';'', None, ''+'', '';'',
                [INVALID_CHARACTER, INVALID_CHARACTER]))"
  by code_simp

text \<open>
  The comment loop returns only from a state whose current character is a line break
  or whose stream still holds unread characters; at the end of the stream it does not
  return.
\<close>

lemma skip_comment_returns:
  assumes "skip_comment s = Some y"
  shows "file_in s \<noteq> [] \<or> current_character s = newline"
  using assms
proof (rule skip_comment.raw_induct
         [rotated 1, where P = "\<lambda>s y. file_in s \<noteq> [] \<or> current_character s = newline"])
  fix f :: "scanner \<Rightarrow> scanner option" and x y
  assume IH: "\<And>x y. f x = Some y \<Longrightarrow> file_in x \<noteq> [] \<or> current_character x = newline"
    and step: "(if current_character x \<noteq> newline then f (advance x) else Some x) = Some y"
  show "file_in x \<noteq> [] \<or> current_character x = newline"
  proof (cases "current_character x = newline")
    case True
    then show ?thesis by simp
  next
    case False
    with step have "f (advance x) = Some y" by simp
    from IH [OF this] show ?thesis
      by (auto simp: newline_def)
  qed
qed

lemma skip_comment_at_end:
  assumes "file_in s = []" and "current_character s \<noteq> newline"
  shows "skip_comment s = None"
proof (cases "skip_comment s")
  case None
  then show ?thesis .
next
  case (Some y)
  from skip_comment_returns [OF this] assms show ?thesis by simp
qed

text \<open>With a line break among the unread characters the comment loop returns.\<close>

lemma skip_comment_line_break:
  assumes "CHR 0x0A \<in> set (file_in s)"
  shows "\<exists>s'. skip_comment s = Some s'"
  using assms
proof (induction "file_in s" arbitrary: s)
  case Nil
  then show ?case by simp
next
  case (Cons c cs)
  have adv: "file_in (advance s) = cs" "current_character (advance s) = [c]"
    using Cons.hyps(2) [symmetric] by simp_all
  show ?case
  proof (cases "current_character s = newline")
    case True
    then show ?thesis by (subst skip_comment.simps) simp
  next
    case False
    show ?thesis
    proof (cases "c = CHR 0x0A")
      case True
      with Cons.hyps(2) [symmetric] have cur: "current_character (advance s) = newline"
        by (simp add: newline_def)
      have "skip_comment (advance s) = Some (advance s)"
        by (subst skip_comment.simps) (simp add: cur del: advance_current)
      with False show ?thesis by (subst skip_comment.simps) simp
    next
      case nc: False
      with Cons.hyps(2) Cons.prems have "CHR 0x0A \<in> set cs"
        by (metis set_ConsD)
      with Cons.hyps(1) [of "advance s"] adv obtain s' where "skip_comment (advance s) = Some s'"
        by auto
      with False show ?thesis by (subst skip_comment.simps) simp
    qed
  qed
qed

text \<open>
  C6: \<^verbatim>\<open>get_symbol\<close> terminates for every finite character stream, also when a
  comment is the last line of the file and no line break follows it. Evaluated on the
  stream \<^verbatim>\<open>#c\<close>: the call does not return.
\<close>

theorem comment_on_last_line_never_returns:
  "get_symbol (Scanner ''#c'' []) = None"
proof -
  let ?s = "skip_spaces (Scanner ''#c'' [])"
  have a: "current_character ?s = ''#''" by code_simp
  have b: "file_in (advance ?s) = []" by code_simp
  have c: "current_character (advance ?s) \<noteq> newline" by code_simp
  have "skip_comment (advance ?s) = None"
    using b c by (rule skip_comment_at_end)
  then show ?thesis
    using a by (simp add: get_symbol_def Let_def)
qed

section \<open>Source pins of a connection statement\<close>

text \<open>
  C3: for a source pin \<^verbatim>\<open>I<n>\<close> on a resolved device with k input pins, n-1 out of
  range records INVALID_PIN and selects no pin, n-1 in range selects the (n-1)-th pin
  with no diagnostic. Evaluated on a two-input gate \<^verbatim>\<open>b\<close>: the in-range pin
  \<^verbatim>\<open>b.I1\<close> records INVALID_PIN and no connection is requested; the out-of-range pin
  \<^verbatim>\<open>b.I3\<close> ends the pass with an uncaught IndexError.
\<close>

theorem input_pin_range_test_is_inverted:
  "outcome (run_parser demo_devices ''[devices] a = AND; b = AND; [conns] a = b.I1; [monit]'')
     = Some (Inr (True, [INVALID_PIN], [], [MakeGate 0 AND 2, MakeGate 2 AND 2]))
   \<and> outcome (run_parser demo_devices ''[devices] a = AND; b = AND; [conns] a = b.I3; [monit]'')
     = Some (Inl IndexError)"
  by code_simp

text \<open>
  C4: a connection statement whose source device is undeclared records exactly one
  INVALID_DEVICE diagnostic and issues no connection request. Evaluated on
  \<^verbatim>\<open>x1 = nosuch.CLK;\<close> with \<^verbatim>\<open>nosuch\<close> never declared: no diagnostic is recorded and
  one connection request is issued, to the identity the scanner interned for
  \<^verbatim>\<open>nosuch\<close>.
\<close>

theorem undeclared_source_with_fixed_pin_is_connected:
  "outcome (run_parser demo_devices ''[devices] x1 = AND; [conns] x1 = nosuch.CLK; [monit]'')
     = Some (Inr (True, [], [], [MakeGate 0 AND 2, MakeConnection (Some 0) None 2 203]))"
  by code_simp

text \<open>
  C7: a source pin is accepted if and only if it is CLK, DATA, Q, QBAR or the letter I
  followed by the digits of an integer from 1 to 16, and an accepted Q or QBAR is
  translated to its pin identity without an uncaught exception. Evaluated:
  \<^verbatim>\<open>I17\<close> and \<^verbatim>\<open>Ix1\<close> are accepted with no diagnostic, and the translation of an
  accepted \<^verbatim>\<open>Q\<close> or \<^verbatim>\<open>QBAR\<close> source pin raises ValueError, which ends the pass.
\<close>

theorem source_pin_check_accepts_too_much:
  "check_inputs_name (PStr ''I17'') p = Inr (True, p)
   \<and> check_inputs_name (PStr ''Ix1'') p = Inr (True, p)
   \<and> select_input_pin devs (PStr ''Q'') input_dev p = Inl ValueError
   \<and> select_input_pin devs (PStr ''QBAR'') input_dev p = Inl ValueError
   \<and> outcome (run_parser demo_devices ''[devices] a = AND; d = DTYPE; [conns] a = d.Q; [monit]'')
     = Some (Inl ValueError)"
  by code_simp

section \<open>Creation requests after a range violation\<close>






lemma names_advance [simp]: "names (advance s) = names s"
  by (simp add: advance_def Let_def)

lemma names_skip_spaces [simp]: "names (skip_spaces s) = names s"
proof (induction s rule: skip_spaces.induct)
  case (1 s)
  then show ?case by (subst skip_spaces.simps) simp
qed








text \<open>A number token carries an \<^verbatim>\<open>int\<close>, so \<^verbatim>\<open>int(self.symbol.name)\<close> cannot raise.\<close>

lemma classify_NUMBER:
  assumes "classify s = Inr (tok, s1)" and "sym_type tok = Some NUMBER"
  shows "\<exists>n. sym_name tok = PInt n"
  using assms
  by (auto simp: classify_def Let_def Symbol_def split_beta split: if_splits sum.splits)

lemma get_symbol_NUMBER:
  assumes "get_symbol s = Some (Inr (tok, s1))" and "sym_type tok = Some NUMBER"
  shows "\<exists>n. sym_name tok = PInt n"
proof -
  from assms(1) obtain s2 where "classify s2 = Inr (tok, s1)"
    by (auto simp: get_symbol_def Let_def split: Option.bind_splits if_splits)
  with classify_NUMBER [of s2 tok s1] assms(2) show ?thesis by simp
qed

lemma add_error_fields [simp]:
  "scanner (add_error c m p) = scanner p"
  "symbol (add_error c m p) = symbol p"
  "requests (add_error c m p) = requests p"
  "stored_device_list (add_error c m p) = stored_device_list p"
  "map error_code (errors (add_error c m p)) = map error_code (errors p) @ [c]"
  by (simp_all add: add_error_def)




lemma bind_res_return [simp]: "bind_res m (\<lambda>x. Some (Inr x)) = m"
proof (cases m)
  case None
  then show ?thesis by simp
next
  case (Some r)
  then show ?thesis by (cases r) simp_all
qed















section \<open>The output pin of the sink\<close>

lemma tag_shape_device: "tag_shape dl pl \<Longrightarrow> tag_shape (dl @ [x]) pl"
  by (auto simp: tag_shape_def)

lemma tag_shape_both: "tag_shape dl pl \<Longrightarrow> tag_shape (dl @ [x]) (pl @ [y])"
  by (auto simp: tag_shape_def)

lemma conns_sink_shape:
  assumes "conns_sink p0 = Some (Inr (dl, pl, p))"
  shows "tag_shape dl pl"
  using assms
  by (auto simp: conns_sink_def tag_shape_def output_tags_def
           split: bind_res_splits if_splits)

lemma conns_sources_loop_shape:
  assumes "conns_sources_loop dl pl p = Some y"
  shows "tag_shape dl pl \<longrightarrow> (\<forall>dl' pl' p'. y = Inr (dl', pl', p') \<longrightarrow> tag_shape dl' pl')"
  using assms
proof (rule conns_sources_loop.raw_induct
         [rotated 1, where P = "\<lambda>dl pl p y. tag_shape dl pl \<longrightarrow>
                                   (\<forall>dl' pl' p'. y = Inr (dl', pl', p') \<longrightarrow> tag_shape dl' pl')"],
       goal_cases)
  case (1 f dl pl p y)
  have IH: "tag_shape dl' pl'"
    if "f dl pl p = Some (Inr (dl', pl', p'))" and "tag_shape dl pl" for dl pl p dl' pl' p'
    using 1(1) that by blast
  show ?case
  proof (intro impI allI)
    fix dl' pl' p'
    assume sh: "tag_shape dl pl" and y: "y = Inr (dl', pl', p')"
    note sh1 = tag_shape_device [OF sh] and sh2 = tag_shape_both [OF sh]
    from 1(2) y sh sh1 sh2 show "tag_shape dl' pl'"
      by (auto split: if_splits sum.splits bind_res_splits dest: IH)
  qed
qed

lemma collected_shape:
  assumes "collected p = Some (dl, pl, p4)"
  shows "tag_shape dl pl"
proof -
  from assms obtain dl0 pl0 p2 p3 where
    sink: "conns_sink (snd (validate_device_name_for_conns p)) = Some (Inr (dl0, pl0, p2))" and
    loop: "conns_sources_loop dl0 pl0 p3 = Some (Inr (dl, pl, p4))"
    by (auto simp: collected_def split: if_splits option.splits sum.splits)
  from conns_sources_loop_shape [OF loop] conns_sink_shape [OF sink] show ?thesis by blast
qed

lemma collected_parse_conns_line:
  assumes "collected p = Some (dl, pl, p4)"
  shows "parse_conns_line devs p = Some (make_connections devs dl pl p4)"
  using assms
  by (auto simp: collected_def parse_conns_line_def split: if_splits option.splits sum.splits)

lemma select_output_pin_shape:
  assumes "tag_shape dl pl"
  shows "select_output_pin devs dl pl =
           (if length pl = length dl
            then Inr (Some (if hd pl = PStr ''Q'' then Q_ID devs else QBAR_ID devs), tl pl)
            else Inr (None, pl))"
proof (cases "length pl = length dl")
  case False
  then show ?thesis by (simp add: select_output_pin_def)
next
  case True
  with assms have ne: "pl \<noteq> []" and tag: "hd pl \<in> output_tags"
    by (auto simp: tag_shape_def)
  from ne have "py_index pl 0 = Inr (hd pl)"
    by (cases pl) (simp_all add: py_index_def)
  with True tag show ?thesis
    by (auto simp: select_output_pin_def dtype_mapping_def output_tags_def)
qed

text \<open>
  C9: for every successfully scanned connection statement, if the number of collected
  pin tags equals the number of collected device names, the first tag is the sink's
  output selector, mapped to the fixed Q or QBAR identity, and is removed from the pin
  list before the source pins are matched; otherwise the output pin is none and the
  list is left as it is. The lookup in \<^verbatim>\<open>dtype_mapping\<close> cannot fail: when the
  lengths agree the first tag is \<^verbatim>\<open>Q\<close> or \<^verbatim>\<open>QBAR\<close>.
\<close>

theorem output_pin_follows_list_lengths:
  assumes "collected p = Some (device_list, ports_list, p4)"
  shows "parse_conns_line devs p = Some (make_connections devs device_list ports_list p4)
       \<and> select_output_pin devs device_list ports_list =
           (if length ports_list = length device_list
            then Inr (Some (if hd ports_list = PStr ''Q'' then Q_ID devs else QBAR_ID devs),
                      tl ports_list)
            else Inr (None, ports_list))
       \<and> (length ports_list = length device_list
            \<longrightarrow> ports_list \<noteq> [] \<and> hd ports_list \<in> output_tags)
       \<and> make_connections devs device_list ports_list p4 =
           (let input_device_ids = fst (lookup (names (scanner p4)) (drop 1 device_list));
                p5 = p4\<lparr>scanner := (scanner p4)
                          \<lparr>names := snd (lookup (names (scanner p4)) (drop 1 device_list))\<rparr>\<rparr>
            in connect_inputs devs (query (names (scanner p4)) (hd device_list))
                 (if length ports_list = length device_list
                  then Some (if hd ports_list = PStr ''Q'' then Q_ID devs else QBAR_ID devs)
                  else None)
                 (if length ports_list = length device_list then tl ports_list else ports_list)
                 input_device_ids
                 (enumerate 0 (map (get_device devs (requests p5)) input_device_ids)) p5)"
proof -
  have sh: "tag_shape device_list ports_list"
    using assms by (rule collected_shape)
  then have ne: "device_list \<noteq> []" by (simp add: tag_shape_def)
  then have hd: "py_index device_list 0 = Inr (hd device_list)"
    by (cases device_list) (simp_all add: py_index_def)
  note sel = select_output_pin_shape [OF sh, of devs]
  have c1: "parse_conns_line devs p = Some (make_connections devs device_list ports_list p4)"
    using assms by (rule collected_parse_conns_line)
  have c3: "length ports_list = length device_list
              \<longrightarrow> ports_list \<noteq> [] \<and> hd ports_list \<in> output_tags"
    using sh by (auto simp: tag_shape_def)
  have c4: "make_connections devs device_list ports_list p4 =
           (let input_device_ids = fst (lookup (names (scanner p4)) (drop 1 device_list));
                p5 = p4\<lparr>scanner := (scanner p4)
                          \<lparr>names := snd (lookup (names (scanner p4)) (drop 1 device_list))\<rparr>\<rparr>
            in connect_inputs devs (query (names (scanner p4)) (hd device_list))
                 (if length ports_list = length device_list
                  then Some (if hd ports_list = PStr ''Q'' then Q_ID devs else QBAR_ID devs)
                  else None)
                 (if length ports_list = length device_list then tl ports_list else ports_list)
                 input_device_ids
                 (enumerate 0 (map (get_device devs (requests p5)) input_device_ids)) p5)"
    by (simp add: make_connections_def hd sel Let_def split_beta)
  from c1 sel c3 c4 show ?thesis by blast
qed

text \<open>The theorem at \<^verbatim>\<open>d.Q = a.I1;\<close>, where the lengths agree.\<close>

theorem output_pin_follows_list_lengths_witness:
  "collected sink_tag_parser
     = Some ([PStr ''d'', PStr ''a''], [PStr ''Q'', PStr ''I1''], sink_tag_parser_end)
   \<and> select_output_pin demo_devices [PStr ''d'', PStr ''a''] [PStr ''Q'', PStr ''I1'']
     = Inr (Some 201, [PStr ''I1''])"
proof -
  have h: "collected sink_tag_parser
             = Some ([PStr ''d'', PStr ''a''], [PStr ''Q'', PStr ''I1''], sink_tag_parser_end)"
    by code_simp
  have q: "Q_ID demo_devices = 201" by (simp add: demo_devices_def)
  from output_pin_follows_list_lengths [OF h, of demo_devices] h q show ?thesis
    by simp
qed

end
